theory Spec2Isabelle
  imports Complex_Main "HOL-Library.Log_Nat"
begin

section \<open>Python strings\<close>

text \<open>
  A Python \<^verbatim>\<open>str\<close> is modelled as a \<^typ>\<open>string\<close>, one \<^typ>\<open>char\<close> per code point; the
  model covers the code points below 256.

  \<^verbatim>\<open>s.startswith(p)\<close>: \<^verbatim>\<open>p\<close> is an initial segment of \<^verbatim>\<open>s\<close>.
\<close>

definition startswith :: "string \<Rightarrow> string \<Rightarrow> bool" where
  "startswith s p = (take (length p) s = p)"

text \<open>\<^verbatim>\<open>sub in s\<close>: \<^verbatim>\<open>sub\<close> occurs in \<^verbatim>\<open>s\<close> as a contiguous substring, compared by code point.\<close>

fun str_contains :: "string \<Rightarrow> string \<Rightarrow> bool" where
  "str_contains [] sub = (sub = [])"
| "str_contains (c # cs) sub = (startswith (c # cs) sub \<or> str_contains cs sub)"

text \<open>
  \<^verbatim>\<open>s.split(sep)\<close> for a separator of one character: the string is cut at every occurrence
  of the separator, empty pieces are kept, and the result always has at least one piece.
\<close>

fun str_split :: "char \<Rightarrow> string \<Rightarrow> string list" where
  "str_split sep [] = [[]]"
| "str_split sep (c # cs) =
     (if c = sep then [] # str_split sep cs
      else (case str_split sep cs of [] \<Rightarrow> [[c]] | p # ps \<Rightarrow> (c # p) # ps))"

text \<open>
  The white space that \<^verbatim>\<open>str.strip()\<close> removes, among the code points below 256: tab to
  carriage return, the four separators U+001C to U+001F, space, U+0085 and U+00A0.
\<close>

definition str_isspace :: "char \<Rightarrow> bool" where
  "str_isspace c = (of_char c \<in> {9, 10, 11, 12, 13, 28, 29, 30, 31, 32, 133, 160 :: nat})"

text \<open>
  The white space that \<^verbatim>\<open>float()\<close> and \<^verbatim>\<open>int()\<close> skip around a numeral: the C white space
  (tab to carriage return and space), and the non-ASCII white space U+0085 and U+00A0,
  which CPython turns into spaces before it parses. The separators U+001C to U+001F are
  not skipped.
\<close>

definition num_isspace :: "char \<Rightarrow> bool" where
  "num_isspace c = (of_char c \<in> {9, 10, 11, 12, 13, 32, 133, 160 :: nat})"

definition strip_with :: "(char \<Rightarrow> bool) \<Rightarrow> string \<Rightarrow> string" where
  "strip_with sp s = rev (dropWhile sp (rev (dropWhile sp s)))"

definition str_strip :: "string \<Rightarrow> string" where
  "str_strip = strip_with str_isspace"

definition is_digit :: "char \<Rightarrow> bool" where
  "is_digit c = (48 \<le> (of_char c :: nat) \<and> (of_char c :: nat) \<le> 57)"

definition digit_val :: "char \<Rightarrow> nat" where
  "digit_val c = of_char c - 48"

text \<open>
  The grammar's \<^verbatim>\<open>digitpart ::= digit (["_"] digit)*\<close>: digits, with single underscores
  allowed between two digits only.
\<close>

fun digitpart :: "string \<Rightarrow> bool" where
  "digitpart [] = False"
| "digitpart [c] = is_digit c"
| "digitpart (c # d # cs) =
     (is_digit c \<and> (if d = CHR ''_'' then digitpart cs else digitpart (d # cs)))"

definition digits_value :: "string \<Rightarrow> nat" where
  "digits_value p = foldl (\<lambda>n c. 10 * n + digit_val c) 0 (filter is_digit p)"

definition to_lower :: "char \<Rightarrow> char" where
  "to_lower c = (if 65 \<le> (of_char c :: nat) \<and> (of_char c :: nat) \<le> 90
                 then char_of (of_char c + (32 :: nat)) else c)"

text \<open>An optional sign: the flag says whether it was a minus.\<close>

definition take_sign :: "string \<Rightarrow> bool \<times> string" where
  "take_sign s =
     (case s of
        [] \<Rightarrow> (False, [])
      | c # cs \<Rightarrow> if c = CHR ''-'' then (True, cs)
                  else if c = CHR ''+'' then (False, cs) else (False, s))"


section \<open>Binary64 floating point\<close>

text \<open>
  The values of Python's \<^verbatim>\<open>float\<close> and numpy's \<^verbatim>\<open>float64\<close>: a finite value carries the
  rational it denotes (\<open>Fin 0\<close> is the positive zero), the negative zero, the two
  infinities, and NaN. A finite value produced by the operations below is always one a
  binary64 can hold, because each operation rounds its exact result.
\<close>

datatype pyfloat = Fin rat | NegZero | PInf | NInf | NaN

text \<open>\<open>ilog2 a\<close> is the integer \<open>e\<close> with \<open>2\<^sup>e \<le> a < 2\<^sup>e\<^sup>+\<^sup>1\<close>, for a positive rational.\<close>

definition ilog2 :: "rat \<Rightarrow> int" where
  "ilog2 a =
     (let (n, d) = quotient_of a;
          g = int (floorlog 2 (nat n)) - int (floorlog 2 (nat d))
      in if 2 powi g \<le> a then g else g - 1)"

definition round_half_even :: "rat \<Rightarrow> int" where
  "round_half_even x =
     (let f = \<lfloor>x\<rfloor>; d = x - of_int f
      in if d < 1 / 2 then f else if 1 / 2 < d then f + 1 else if even f then f else f + 1)"

definition fzero :: "bool \<Rightarrow> pyfloat" where
  "fzero neg = (if neg then NegZero else Fin 0)"

definition finf :: "bool \<Rightarrow> pyfloat" where
  "finf neg = (if neg then NInf else PInf)"

text \<open>
  IEEE 754 rounding of an exact result to the nearest binary64, ties to even: 53
  significant bits, the exponent of the leading bit between -1022 and 1023, gradual
  underflow below (the spacing stays \<open>2\<^sup>-\<^sup>1\<^sup>0\<^sup>7\<^sup>4\<close>), overflow to an infinity of the same sign.
\<close>

definition round_double :: "rat \<Rightarrow> pyfloat" where
  "round_double q =
     (if q = 0 then Fin 0
      else let a = \<bar>q\<bar>;
               e = max (ilog2 a) (- 1022);
               m = round_half_even (a / 2 powi (e - 52))
           in if m = 0 then fzero (q < 0)
              else if 1024 \<le> e \<or> (e = 1023 \<and> m = 2 ^ 53) then finf (q < 0)
              else Fin (sgn q * of_int m * 2 powi (e - 52)))"

fun is_inf :: "pyfloat \<Rightarrow> bool" where
  "is_inf PInf = True"
| "is_inf NInf = True"
| "is_inf _ = False"

fun is_zero :: "pyfloat \<Rightarrow> bool" where
  "is_zero (Fin q) = (q = 0)"
| "is_zero NegZero = True"
| "is_zero _ = False"

fun sign_bit :: "pyfloat \<Rightarrow> bool" where
  "sign_bit (Fin q) = (q < 0)"
| "sign_bit NegZero = True"
| "sign_bit NInf = True"
| "sign_bit _ = False"

fun fval :: "pyfloat \<Rightarrow> rat" where
  "fval (Fin q) = q"
| "fval _ = 0"

text \<open>
  Addition, multiplication and division as IEEE 754 defines them, special values
  included. Division is numpy's, which pandas uses on a column: dividing by a zero gives
  an infinity or NaN and raises nothing.
\<close>

definition fadd :: "pyfloat \<Rightarrow> pyfloat \<Rightarrow> pyfloat" where
  "fadd x y =
     (if x = NaN \<or> y = NaN then NaN
      else if is_inf x \<and> is_inf y then (if x = y then x else NaN)
      else if is_inf x then x
      else if is_inf y then y
      else if is_zero x \<and> is_zero y then fzero (sign_bit x \<and> sign_bit y)
      else if fval x + fval y = 0 then Fin 0
      else round_double (fval x + fval y))"

definition fmul :: "pyfloat \<Rightarrow> pyfloat \<Rightarrow> pyfloat" where
  "fmul x y =
     (if x = NaN \<or> y = NaN then NaN
      else if (is_inf x \<and> is_zero y) \<or> (is_zero x \<and> is_inf y) then NaN
      else if is_inf x \<or> is_inf y then finf (sign_bit x \<noteq> sign_bit y)
      else if is_zero x \<or> is_zero y then fzero (sign_bit x \<noteq> sign_bit y)
      else round_double (fval x * fval y))"

definition fdiv :: "pyfloat \<Rightarrow> pyfloat \<Rightarrow> pyfloat" where
  "fdiv x y =
     (if x = NaN \<or> y = NaN then NaN
      else if (is_inf x \<and> is_inf y) \<or> (is_zero x \<and> is_zero y) then NaN
      else if is_inf x \<or> is_zero y then finf (sign_bit x \<noteq> sign_bit y)
      else if is_inf y \<or> is_zero x then fzero (sign_bit x \<noteq> sign_bit y)
      else round_double (fval x / fval y))"

text \<open>
  \<^verbatim>\<open>np.mean\<close> of a list of floats: the sum of the elements divided by their number. The
  sum starts from the first element and adds the others from the left; numpy may
  associate the additions of three or more elements differently, which can change the
  last bit of the result. Two elements are added once. The mean of no element is
  \<open>0 / 0\<close>, that is NaN.
\<close>

fun np_sum :: "pyfloat list \<Rightarrow> pyfloat" where
  "np_sum [] = Fin 0"
| "np_sum (x # xs) = foldl fadd x xs"

definition np_mean :: "pyfloat list \<Rightarrow> pyfloat" where
  "np_mean xs = fdiv (np_sum xs) (Fin (of_nat (length xs)))"


section \<open>The built-in conversions \<^verbatim>\<open>float()\<close> and \<^verbatim>\<open>int()\<close> on strings\<close>

text \<open>
  Python's grammar for the argument of \<^verbatim>\<open>float\<close>, after the surrounding white space is
  removed:
  \<^verbatim>\<open>
  floatvalue  ::= [sign] (floatnumber | infinity | nan)
  floatnumber ::= number [exponent]
  number      ::= [digitpart] "." digitpart | digitpart ["."]
  exponent    ::= ("e" | "E") [sign] digitpart
  infinity    ::= "Infinity" | "inf"        nan ::= "nan"      (any letter case)
  \<close>
  The decimal value is rounded to the nearest binary64. \<open>None\<close> stands for the
  \<^verbatim>\<open>ValueError\<close> that Python raises on any other string.
\<close>

definition span_digits :: "string \<Rightarrow> string \<times> string" where
  "span_digits s =
     (takeWhile (\<lambda>c. is_digit c \<or> c = CHR ''_'') s,
      dropWhile (\<lambda>c. is_digit c \<or> c = CHR ''_'') s)"

definition parse_exponent :: "string \<Rightarrow> int option" where
  "parse_exponent r =
     (case r of
        [] \<Rightarrow> Some 0
      | c # cs \<Rightarrow>
          if c = CHR ''e'' \<or> c = CHR ''E''
          then (let (neg, ds) = take_sign cs
                in if digitpart ds
                   then Some (if neg then - int (digits_value ds) else int (digits_value ds))
                   else None)
          else None)"

definition parse_floatnumber :: "string \<Rightarrow> rat option" where
  "parse_floatnumber s =
     (let (ip, r1) = span_digits s;
          dot = (r1 \<noteq> [] \<and> hd r1 = CHR ''.'');
          (fp, r2) = (if dot then span_digits (tl r1) else ([], r1))
      in if (ip = [] \<or> digitpart ip) \<and> (fp = [] \<or> digitpart fp) \<and> (ip \<noteq> [] \<or> fp \<noteq> [])
         then (case parse_exponent r2 of
                 None \<Rightarrow> None
               | Some e \<Rightarrow>
                   Some (of_nat (digits_value (ip @ fp))
                         * 10 powi (e - int (length (filter is_digit fp)))))
         else None)"

definition py_float :: "string \<Rightarrow> pyfloat option" where
  "py_float s =
     (let (neg, u) = take_sign (strip_with num_isspace s);
          l = map to_lower u
      in if l = ''inf'' \<or> l = ''infinity'' then Some (finf neg)
         else if l = ''nan'' then Some NaN
         else (case parse_floatnumber u of
                 None \<Rightarrow> None
               | Some q \<Rightarrow> Some (if q = 0 then fzero neg
                                 else round_double (if neg then - q else q))))"

text \<open>
  \<^verbatim>\<open>int(s)\<close> in base 10: white space, an optional sign, a \<^verbatim>\<open>digitpart\<close>, white space.
  CPython refuses a numeral of more than 4300 digits (its default limit); \<open>None\<close> stands
  for the \<^verbatim>\<open>ValueError\<close>.
\<close>

definition int_max_str_digits :: nat where
  "int_max_str_digits = 4300"

definition py_int :: "string \<Rightarrow> int option" where
  "py_int s =
     (let (neg, ds) = take_sign (strip_with num_isspace s)
      in if digitpart ds \<and> length (filter is_digit ds) \<le> int_max_str_digits
         then Some (if neg then - int (digits_value ds) else int (digits_value ds))
         else None)"


section \<open>The loader \<^verbatim>\<open>load_data\<close> of \<^verbatim>\<open>app.py\<close> (lines 12 to 41)\<close>

text \<open>
  The exceptions that the loader's own expressions can raise. Reading the file
  (\<^verbatim>\<open>pd.read_csv\<close>) is outside the model: the model starts from the table it returns.
\<close>

datatype error = ValueError | TypeError | IndexError

text \<open>
  A cell of the table that \<^verbatim>\<open>read_csv\<close> returns is a string or a number. pandas marks a
  missing cell by the float NaN, in every column, and \<^verbatim>\<open>dropna\<close> drops exactly the cells
  for which \<^verbatim>\<open>isna\<close> holds; an infinity is not missing. A numeric cell carries the
  binary64 of its value; the wrap-around of an all-integer column beyond 64 bits is outside
  the model.
\<close>

datatype cell = Str string | Num pyfloat

definition isna :: "cell \<Rightarrow> bool" where
  "isna c = (c = Num NaN)"

text \<open>
  The list comprehension of line 20, \<^verbatim>\<open>[float(p.strip()) for p in ...]\<close>: it stops at the
  first part that \<^verbatim>\<open>float\<close> refuses.
\<close>

fun float_each :: "string list \<Rightarrow> error + pyfloat list" where
  "float_each [] = Inr []"
| "float_each (p # ps) =
     (case py_float (str_strip p) of
        None \<Rightarrow> Inl ValueError
      | Some v \<Rightarrow> (case float_each ps of Inl e \<Rightarrow> Inl e | Inr vs \<Rightarrow> Inr (v # vs)))"

text \<open>
  The body of the \<^verbatim>\<open>try\<close> of \<^verbatim>\<open>clean_sqft\<close> (lines 19 to 23). For a cell that is not a
  string, line 23 computes \<^verbatim>\<open>float(str(x).split(' ')[0])\<close>: the text of a float has no space
  and reads back as the same float (NaN as NaN), so the value is returned as it is.
\<close>

definition clean_sqft_try :: "cell \<Rightarrow> error + pyfloat" where
  "clean_sqft_try x =
     (case x of
        Str s \<Rightarrow>
          if CHR ''-'' \<in> set s
          then (case float_each (str_split CHR ''-'' s) of
                  Inl e \<Rightarrow> Inl e
                | Inr parts \<Rightarrow> Inr (np_mean parts))
          else (case str_split CHR '' '' s of
                  [] \<Rightarrow> Inl IndexError
                | tok # _ \<Rightarrow> (case py_float tok of None \<Rightarrow> Inl ValueError | Some v \<Rightarrow> Inr v))
      | Num v \<Rightarrow> Inr v)"

text \<open>\<^verbatim>\<open>clean_sqft\<close> (lines 16 to 25): the bare \<^verbatim>\<open>except\<close> turns every exception into NaN.\<close>

definition clean_sqft :: "cell \<Rightarrow> pyfloat" where
  "clean_sqft x = (case clean_sqft_try x of Inl e \<Rightarrow> NaN | Inr v \<Rightarrow> v)"

text \<open>
  The lambda of line 31,
  \<^verbatim>\<open>int(x.split(' ')[0]) if isinstance(x, str) and (('BHK' in x) or ('Bedroom' in x)) else np.nan\<close>.
  The result \<open>None\<close> is NaN. Nothing catches the exception of \<^verbatim>\<open>int\<close>.
\<close>

definition derive_bhk :: "cell \<Rightarrow> error + int option" where
  "derive_bhk x =
     (case x of
        Str s \<Rightarrow>
          if str_contains s ''BHK'' \<or> str_contains s ''Bedroom''
          then (case str_split CHR '' '' s of
                  [] \<Rightarrow> Inl IndexError
                | tok # _ \<Rightarrow> (case py_int tok of None \<Rightarrow> Inl ValueError | Some n \<Rightarrow> Inr (Some n)))
          else Inr None
      | Num v \<Rightarrow> Inr None)"

text \<open>
  The rows of the table: the five columns that the program reads (the column \<^verbatim>\<open>size\<close> is
  the field \<open>size_col\<close>), then the column \<^verbatim>\<open>BHK\<close> that line 31 adds, then the column
  \<^verbatim>\<open>price_per_sqft\<close> that line 37 adds.
\<close>

record raw_record =
  area_type :: cell
  size_col :: cell
  total_sqft :: cell
  price :: cell
  location :: cell

record bhk_record = raw_record +
  BHK :: "int option"

record cleaned_record = bhk_record +
  price_per_sqft :: pyfloat

definition add_bhk :: "raw_record \<Rightarrow> int option \<Rightarrow> bhk_record" where
  "add_bhk r b =
     \<lparr>area_type = area_type r, size_col = size_col r, total_sqft = total_sqft r,
      price = price r, location = location r, BHK = b\<rparr>"

definition add_price_per_sqft :: "bhk_record \<Rightarrow> pyfloat \<Rightarrow> cleaned_record" where
  "add_price_per_sqft r v =
     \<lparr>area_type = area_type r, size_col = size_col r, total_sqft = total_sqft r,
      price = price r, location = location r, BHK = BHK r, price_per_sqft = v\<rparr>"

text \<open>
  \<^verbatim>\<open>df['size'].apply(...)\<close> (line 31) runs the lambda on the rows in order; the first
  exception ends the whole call.
\<close>

fun apply_bhk :: "raw_record list \<Rightarrow> error + bhk_record list" where
  "apply_bhk [] = Inr []"
| "apply_bhk (r # rs) =
     (case derive_bhk (size_col r) of
        Inl e \<Rightarrow> Inl e
      | Inr b \<Rightarrow> (case apply_bhk rs of Inl e \<Rightarrow> Inl e | Inr out \<Rightarrow> Inr (add_bhk r b # out)))"

text \<open>The rows that \<^verbatim>\<open>dropna(subset=['BHK', 'total_sqft', 'price', 'location'])\<close> keeps (line 34).\<close>

definition critical_present :: "bhk_record \<Rightarrow> bool" where
  "critical_present r =
     (BHK r \<noteq> None \<and> \<not> isna (total_sqft r) \<and> \<not> isna (price r) \<and> \<not> isna (location r))"

text \<open>
  Line 37 on one row, \<^verbatim>\<open>(price * 100000) / total_sqft\<close>. A price that is a string is
  repeated by the multiplication, and the division of that string raises \<^verbatim>\<open>TypeError\<close>.
\<close>

definition per_sqft :: "cell \<Rightarrow> cell \<Rightarrow> error + pyfloat" where
  "per_sqft p t =
     (case p of
        Str s \<Rightarrow> Inl TypeError
      | Num a \<Rightarrow> (case t of
                    Str s \<Rightarrow> Inl TypeError
                  | Num b \<Rightarrow> Inr (fdiv (fmul a (Fin 100000)) b)))"

fun apply_price_per_sqft :: "bhk_record list \<Rightarrow> error + cleaned_record list" where
  "apply_price_per_sqft [] = Inr []"
| "apply_price_per_sqft (r # rs) =
     (case per_sqft (price r) (total_sqft r) of
        Inl e \<Rightarrow> Inl e
      | Inr v \<Rightarrow> (case apply_price_per_sqft rs of
                    Inl e \<Rightarrow> Inl e
                  | Inr out \<Rightarrow> Inr (add_price_per_sqft r v # out)))"

text \<open>The mask \<^verbatim>\<open>df['BHK'] < 10\<close> of line 40; a comparison with NaN is false.\<close>

definition bhk_below_10 :: "cleaned_record \<Rightarrow> bool" where
  "bhk_below_10 r = (case BHK r of None \<Rightarrow> False | Some b \<Rightarrow> b < 10)"

text \<open>
  \<^verbatim>\<open>load_data\<close>, from the table that \<^verbatim>\<open>read_csv\<close> returned: line 27 replaces the column
  \<^verbatim>\<open>total_sqft\<close>, line 30 drops the rows without a size, line 31 adds \<^verbatim>\<open>BHK\<close>, line 34
  drops the rows that miss a critical column, line 37 adds \<^verbatim>\<open>price_per_sqft\<close>, line 40
  keeps the rows with \<^verbatim>\<open>BHK\<close> below 10. The order of the rows is kept throughout.
\<close>

definition load_data :: "raw_record list \<Rightarrow> error + cleaned_record list" where
  "load_data df =
     (let df1 = map (\<lambda>r. r\<lparr>total_sqft := Num (clean_sqft (total_sqft r))\<rparr>) df;
          df2 = filter (\<lambda>r. \<not> isna (size_col r)) df1
      in case apply_bhk df2 of
           Inl e \<Rightarrow> Inl e
         | Inr df3 \<Rightarrow>
             (case apply_price_per_sqft (filter critical_present df3) of
                Inl e \<Rightarrow> Inl e
              | Inr df5 \<Rightarrow> Inr (filter bhk_below_10 df5)))"

text \<open>A row as it is written in the examples: size, area, price, location, area type.\<close>

definition row :: "string \<Rightarrow> string \<Rightarrow> pyfloat \<Rightarrow> string \<Rightarrow> string \<Rightarrow> raw_record" where
  "row sz sq p loc kind =
     \<lparr>area_type = Str kind, size_col = Str sz, total_sqft = Str sq, price = Num p,
      location = Str loc\<rparr>"

section \<open>The selection dispatch of \<^verbatim>\<open>app.py\<close> (lines 103 to 112)\<close>

text \<open>
  The five entries of the selection box (lines 48 to 54): the identifiers a user of the
  page can choose from.
\<close>

definition plot_options :: "string list" where
  "plot_options =
     [''1. Price Distribution'',
      ''2. Price vs. Size (BHK)'',
      ''3. Top 10 Locations by Count'',
      ''4. Price vs. Square Footage'',
      ''5. Area Type Distribution'']"

text \<open>
  The five plotting functions of section 3 of the source. What each of them draws is the
  business of streamlit, matplotlib and seaborn; the dispatch only chooses which one runs.
\<close>

datatype plot =
    plot_1_price_distribution
  | plot_2_bhk_vs_price
  | plot_3_top_locations
  | plot_4_scatter_sqft_price
  | plot_5_area_type_distribution

text \<open>
  The \<^verbatim>\<open>if\<close>/\<^verbatim>\<open>elif\<close> chain, in the order of the source and with no \<^verbatim>\<open>else\<close>.
  The drawing routines are external; \<open>draw\<close> stands for them: it takes the chosen plot and
  the state of the page and returns the new state, or the exception the routine raised.
  When no test succeeds the chain falls through and the state is returned as it was.
\<close>

definition display_selected_plot ::
  "(plot \<Rightarrow> 'st \<Rightarrow> 'e + 'st) \<Rightarrow> string \<Rightarrow> 'st \<Rightarrow> 'e + 'st" where
  "display_selected_plot draw selected_plot st =
     (if startswith selected_plot ''1'' then draw plot_1_price_distribution st
      else if startswith selected_plot ''2'' then draw plot_2_bhk_vs_price st
      else if startswith selected_plot ''3'' then draw plot_3_top_locations st
      else if startswith selected_plot ''4'' then draw plot_4_scatter_sqft_price st
      else if startswith selected_plot ''5'' then draw plot_5_area_type_distribution st
      else Inr st)"

text \<open>
  The same choice written as the specification words it: a table of the five branches in
  the order 1, 2, 3, 4, 5, searched from the front; the first branch whose key is a prefix
  of the selection is taken.
\<close>

definition branches :: "(string \<times> plot) list" where
  "branches =
     [(''1'', plot_1_price_distribution),
      (''2'', plot_2_bhk_vs_price),
      (''3'', plot_3_top_locations),
      (''4'', plot_4_scatter_sqft_price),
      (''5'', plot_5_area_type_distribution)]"

definition first_branch :: "string \<Rightarrow> plot option" where
  "first_branch sel = map_option snd (find (\<lambda>b. startswith sel (fst b)) branches)"

text \<open>A page state for the closed examples: the list of plots drawn so far.\<close>

definition record_plot :: "plot \<Rightarrow> plot list \<Rightarrow> unit + plot list" where
  "record_plot p drawn = Inr (drawn @ [p])"


section \<open>Facts about rounding\<close>

lemma powi2_pos: "0 < (2::rat) powi k"
  by simp

lemma powi2_of_nat_diff:
  "(2::rat) ^ m / 2 ^ n = 2 powi (int m - int n)"
  by (simp add: power_int_diff)

lemma ilog2_bounds:
  assumes "0 < a"
  shows "2 powi (ilog2 a) \<le> a \<and> a < 2 powi (ilog2 a + 1)"
proof -
  obtain n d where q: "quotient_of a = (n, d)" by (cases "quotient_of a")
  have d: "0 < d" using quotient_of_denom_pos [OF q] .
  have a: "a = of_int n / of_int d" using quotient_of_div [OF q] .
  have n: "0 < n" using assms d a by (simp add: zero_less_divide_iff)
  define ln where "ln = floorlog 2 (nat n)"
  define ld where "ld = floorlog 2 (nat d)"
  define g where "g = int ln - int ld"
  have bn: "2 ^ (ln - 1) \<le> nat n \<and> nat n < 2 ^ ln"
    unfolding ln_def using floorlog_bounds [of "nat n" 2] n by simp
  have bd: "2 ^ (ld - 1) \<le> nat d \<and> nat d < 2 ^ ld"
    unfolding ld_def using floorlog_bounds [of "nat d" 2] d by simp
  have ln1: "1 \<le> ln" using n by (simp add: ln_def floorlog_def)
  have ld1: "1 \<le> ld" using d by (simp add: ld_def floorlog_def)
  have rn: "(of_int n :: rat) = of_nat (nat n)" using n by simp
  have rd: "(of_int d :: rat) = of_nat (nat d)" using d by simp
  have n_lo: "(2::rat) ^ (ln - 1) \<le> of_int n"
    unfolding rn using bn by (metis of_nat_le_iff of_nat_numeral of_nat_power)
  have n_hi: "of_int n < (2::rat) ^ ln"
    unfolding rn using bn by (metis of_nat_less_iff of_nat_numeral of_nat_power)
  have d_lo: "(2::rat) ^ (ld - 1) \<le> of_int d"
    unfolding rd using bd by (metis of_nat_le_iff of_nat_numeral of_nat_power)
  have d_hi: "of_int d < (2::rat) ^ ld"
    unfolding rd using bd by (metis of_nat_less_iff of_nat_numeral of_nat_power)
  have "a < 2 ^ ln / 2 ^ (ld - 1)"
    unfolding a using n n_hi d_lo by (intro frac_less) simp_all
  also have "\<dots> = 2 powi (g + 1)"
    using ld1 by (simp add: powi2_of_nat_diff g_def of_nat_diff algebra_simps)
  finally have hi: "a < 2 powi (g + 1)" .
  have "(2::rat) ^ (ln - 1) / 2 ^ ld < a"
    unfolding a using d n_lo d_hi by (intro frac_less2) simp_all
  moreover have "(2::rat) ^ (ln - 1) / 2 ^ ld = 2 powi (g - 1)"
    using ln1 by (simp add: powi2_of_nat_diff g_def of_nat_diff algebra_simps)
  ultimately have lo: "2 powi (g - 1) < a" by simp
  have e: "ilog2 a = (if 2 powi g \<le> a then g else g - 1)"
    by (simp add: ilog2_def q ln_def ld_def g_def Let_def)
  show ?thesis
  proof (cases "2 powi g \<le> a")
    case True
    with e hi show ?thesis by simp
  next
    case False
    with e lo show ?thesis by simp
  qed
qed

lemma powi2_sandwich_unique:
  assumes "(2::rat) powi e \<le> a" "a < 2 powi (e + 1)"
      and "(2::rat) powi e' \<le> a" "a < 2 powi (e' + 1)"
  shows "e = e'"
proof (rule ccontr)
  assume ne: "e \<noteq> e'"
  show False
  proof (cases "e < e'")
    case True
    then have "(2::rat) powi (e + 1) \<le> 2 powi e'"
      by (intro power_int_increasing) simp_all
    with assms show False by simp
  next
    case False
    with ne have "(2::rat) powi (e' + 1) \<le> 2 powi e"
      by (intro power_int_increasing) simp_all
    with assms show False by simp
  qed
qed

lemma ilog2_eq:
  assumes "(2::rat) powi e \<le> a" "a < 2 powi (e + 1)"
  shows "ilog2 a = e"
proof -
  have "0 < a" using less_le_trans [OF powi2_pos assms(1)] .
  from ilog2_bounds [OF this] assms show ?thesis
    using powi2_sandwich_unique by blast
qed

lemma round_half_even_near:
  assumes "\<bar>x - of_int m\<bar> < 1 / 2"
  shows "round_half_even x = m"
proof -
  have b: "of_int m - 1 / 2 < x" "x < of_int m + 1 / 2"
    using assms by linarith+
  have "\<lfloor>x\<rfloor> = m \<or> \<lfloor>x\<rfloor> = m - 1"
  proof (cases "of_int m \<le> x")
    case True
    with b have "\<lfloor>x\<rfloor> = m" by (intro floor_unique) simp_all
    then show ?thesis ..
  next
    case False
    with b have "\<lfloor>x\<rfloor> = m - 1" by (intro floor_unique) simp_all
    then show ?thesis ..
  qed
  then show ?thesis
  proof
    assume f: "\<lfloor>x\<rfloor> = m"
    then have "x - of_int m < 1 / 2" using assms by linarith
    with f show ?thesis by (simp add: round_half_even_def Let_def)
  next
    assume f: "\<lfloor>x\<rfloor> = m - 1"
    then have "1 / 2 < x - of_int (m - 1)" using b by simp
    with f show ?thesis by (simp add: round_half_even_def Let_def)
  qed
qed



lemma round_half_even_nonneg: "0 \<le> x \<Longrightarrow> 0 \<le> round_half_even x"
  by (auto simp add: round_half_even_def Let_def)

lemma scaled_lower:
  assumes "(2::rat) powi e \<le> a"
  shows "2 ^ 52 \<le> a / 2 powi (e - 52)"
proof -
  have "(2::rat) powi e = 2 powi (e - 52) * 2 ^ 52"
    using power_int_add [of "2::rat" "e - 52" 52] by simp
  with assms have "2 powi (e - 52) * 2 ^ 52 \<le> a" by simp
  then show ?thesis
    by (simp add: pos_le_divide_eq mult.commute)
qed

lemma round_double_eval:
  assumes lo: "2 powi e \<le> \<bar>q\<bar>" and hi: "\<bar>q\<bar> < 2 powi (e + 1)"
      and e: "- 1022 \<le> e" "e \<le> 1023"
      and m: "\<bar>\<bar>q\<bar> / 2 powi (e - 52) - of_int m\<bar> < 1 / 2" "m < 2 ^ 53"
  shows "round_double q = Fin (sgn q * of_int m * 2 powi (e - 52))"
proof -
  have q0: "q \<noteq> 0" using less_le_trans [OF powi2_pos lo] by auto
  have il: "ilog2 \<bar>q\<bar> = e" using ilog2_eq [OF lo hi] .
  have mx: "max e (- 1022) = e" using e by simp
  have rh: "round_half_even (\<bar>q\<bar> / 2 powi (e - 52)) = m"
    using round_half_even_near [OF m(1)] .
  have "(2::rat) ^ 52 \<le> \<bar>q\<bar> / 2 powi (e - 52)" using scaled_lower [OF lo] .
  moreover have "(1::rat) \<le> 2 ^ 52" by simp
  ultimately have "(0::rat) < of_int m" using m(1) by linarith
  then have m0: "m \<noteq> 0" by auto
  show ?thesis
    using q0 m0 e m(2) by (simp add: round_double_def Let_def il mx rh)
qed

lemma round_double_of_int:
  assumes "k \<noteq> 0" "\<bar>k\<bar> < 2 ^ 53"
  shows "round_double (of_int k) = Fin (of_int k)"
proof -
  define a :: rat where "a = \<bar>of_int k\<bar>"
  have a0: "0 < a" using assms(1) by (simp add: a_def)
  define e where "e = ilog2 a"
  have b: "2 powi e \<le> a" "a < 2 powi (e + 1)"
    using ilog2_bounds [OF a0] by (simp_all add: e_def)
  have "1 \<le> \<bar>k\<bar>" using assms(1) by linarith
  then have "(of_int 1 :: rat) \<le> of_int \<bar>k\<bar>" by (simp only: of_int_le_iff)
  then have a1: "1 \<le> a" by (simp add: a_def)
  have a53: "a < 2 powi 53" using assms(2) unfolding a_def
    by (metis of_int_abs of_int_less_iff of_int_numeral of_int_power power_int_numeral)
  have e0: "0 \<le> e"
  proof (rule ccontr)
    assume "\<not> 0 \<le> e"
    then have "(2::rat) powi (e + 1) \<le> 2 powi 0" by (intro power_int_increasing) simp_all
    with b(2) a1 show False by simp
  qed
  have e52: "e \<le> 52"
  proof (rule ccontr)
    assume "\<not> e \<le> 52"
    then have "(2::rat) powi 53 \<le> 2 powi e" by (intro power_int_increasing) simp_all
    with b(1) a53 show False by simp
  qed
  define j where "j = nat (52 - e)"
  define m where "m = \<bar>k\<bar> * 2 ^ j"
  have ulp: "(2::rat) powi (e - 52) = 1 / 2 ^ j"
    using e52 by (simp add: j_def power_int_def field_simps)
  have sc: "a / 2 powi (e - 52) = of_int m"
    by (simp add: ulp m_def a_def)
  have "of_int m < (2::rat) powi (e + 1) * 2 ^ j"
    using b(2) by (simp add: sc [symmetric] ulp)
  also have "\<dots> = 2 powi (e + 1 + int j)"
    using power_int_add [of "2::rat" "e + 1" "int j"] by simp
  also have "\<dots> = 2 ^ 53" using e52 by (simp add: j_def)
  finally have "(of_int m :: rat) < of_int (2 ^ 53)" by simp
  then have m53: "m < 2 ^ 53" by (simp only: of_int_less_iff)
  have "round_double (of_int k) = Fin (sgn (of_int k) * of_int m * 2 powi (e - 52))"
    using b e0 e52 m53 sc unfolding a_def
    by (intro round_double_eval) simp_all
  also have "sgn (of_int k :: rat) * of_int m * 2 powi (e - 52) = sgn (of_int k) * a"
  proof -
    have "(2::rat) powi (e - 52) \<noteq> 0" by simp
    then have "of_int m * 2 powi (e - 52) = a" unfolding sc [symmetric] by simp
    then show ?thesis by (simp add: mult.assoc)
  qed
  also have "\<dots> = of_int k" by (simp add: a_def sgn_mult_abs)
  finally show ?thesis .
qed

section \<open>Evaluating the model on concrete tables\<close>

lemma round_double_numeral:
  "(numeral n :: int) < 2 ^ 53 \<Longrightarrow> round_double (numeral n) = Fin (numeral n)"
  using round_double_of_int [of "numeral n"] by simp

lemma round_double_neg_numeral:
  "(numeral n :: int) < 2 ^ 53 \<Longrightarrow> round_double (- numeral n) = Fin (- numeral n)"
  using round_double_of_int [of "- numeral n"] by simp

lemma round_double_one: "round_double 1 = Fin 1"
  using round_double_of_int [of 1] by simp

lemmas str_eval =
  strip_with_def num_isspace_def str_isspace_def str_strip_def take_sign_def to_lower_def
  span_digits_def is_digit_def digit_val_def digits_value_def startswith_def

lemmas float_eval =
  py_float_def parse_floatnumber_def parse_exponent_def fzero_def finf_def
  round_double_numeral round_double_neg_numeral round_double_one fadd_def fmul_def fdiv_def np_mean_def

lemmas load_eval =
  load_data_def row_def clean_sqft_def clean_sqft_try_def derive_bhk_def py_int_def
  int_max_str_digits_def isna_def add_bhk_def add_price_per_sqft_def critical_present_def
  per_sqft_def bhk_below_10_def

lemma quotient_50000_11:
  "round_double (50000 / 11) = Fin (4997780126254545 / 1099511627776)"
proof -
  have "round_double (50000 / 11)
        = Fin (sgn (50000 / 11) * of_int 4997780126254545 * 2 powi (12 - 52))"
    by (rule round_double_eval) (simp_all add: abs_less_iff)
  then show ?thesis by simp
qed

section \<open>From a cleaned row back to its raw row\<close>

lemma str_split_hd: "\<exists>ps. str_split c s = takeWhile (\<lambda>x. x \<noteq> c) s # ps"
  by (induction s) auto

lemma first_token:
  "(case str_split c s of [] \<Rightarrow> a | tok # rest \<Rightarrow> f tok) = f (takeWhile (\<lambda>x. x \<noteq> c) s)"
  using str_split_hd [of c s] by auto

lemma apply_bhk_rowD:
  "apply_bhk rs = Inr out \<Longrightarrow> r \<in> set out \<Longrightarrow>
   \<exists>raw \<in> set rs. \<exists>b. derive_bhk (size_col raw) = Inr b \<and> r = add_bhk raw b"
proof (induction rs arbitrary: out)
  case Nil
  then show ?case by simp
next
  case (Cons a rs)
  then show ?case
    by (auto split: sum.splits)
qed

lemma apply_price_per_sqft_rowD:
  "apply_price_per_sqft rs = Inr out \<Longrightarrow> r \<in> set out \<Longrightarrow>
   \<exists>raw \<in> set rs. \<exists>v. per_sqft (price raw) (total_sqft raw) = Inr v
      \<and> r = add_price_per_sqft raw v"
proof (induction rs arbitrary: out)
  case Nil
  then show ?case by simp
next
  case (Cons a rs)
  then show ?case
    by (auto split: sum.splits)
qed

lemma load_data_rowD:
  assumes "load_data df = Inr out" "r \<in> set out"
  shows "\<exists>raw \<in> set df. \<exists>b v.
           \<not> isna (size_col raw) \<and> derive_bhk (size_col raw) = Inr (Some b) \<and> b < 10
           \<and> clean_sqft (total_sqft raw) \<noteq> NaN \<and> \<not> isna (price raw) \<and> \<not> isna (location raw)
           \<and> per_sqft (price raw) (Num (clean_sqft (total_sqft raw))) = Inr v
           \<and> r = \<lparr>area_type = area_type raw, size_col = size_col raw,
                   total_sqft = Num (clean_sqft (total_sqft raw)), price = price raw,
                   location = location raw, BHK = Some b, price_per_sqft = v\<rparr>"
proof -
  define df2 where
    "df2 = filter (\<lambda>r. \<not> isna (size_col r))
             (map (\<lambda>r. r\<lparr>total_sqft := Num (clean_sqft (total_sqft r))\<rparr>) df)"
  from assms(1) obtain df3 df5 where
    s3: "apply_bhk df2 = Inr df3" and
    s5: "apply_price_per_sqft (filter critical_present df3) = Inr df5" and
    o: "out = filter bhk_below_10 df5"
    by (auto simp add: load_data_def df2_def Let_def split: sum.splits)
  from assms(2) o have r5: "r \<in> set df5" and r10: "bhk_below_10 r" by simp_all
  from apply_price_per_sqft_rowD [OF s5 r5] obtain r3 v where
    r3: "r3 \<in> set df3" "critical_present r3" and
    pv: "per_sqft (price r3) (total_sqft r3) = Inr v" and rv: "r = add_price_per_sqft r3 v"
    by auto
  from apply_bhk_rowD [OF s3 r3(1)] obtain r2 b where
    r2: "r2 \<in> set df2" and db: "derive_bhk (size_col r2) = Inr b" and rb: "r3 = add_bhk r2 b"
    by auto
  from r2 obtain raw where
    raw: "raw \<in> set df" "r2 = raw\<lparr>total_sqft := Num (clean_sqft (total_sqft raw))\<rparr>"
      "\<not> isna (size_col r2)"
    by (auto simp add: df2_def)
  from r10 rv rb obtain n where n: "b = Some n" "n < 10"
    by (auto simp add: bhk_below_10_def add_price_per_sqft_def add_bhk_def split: option.splits)
  show ?thesis
    using raw r3(2) pv rv db rb n
    by (intro bexI [of _ raw] exI [of _ n] exI [of _ v])
       (simp_all add: critical_present_def isna_def add_price_per_sqft_def add_bhk_def)
qed

section \<open>Splitting at the hyphen\<close>

lemma str_split_no_sep: "sep \<notin> set b \<Longrightarrow> str_split sep b = [b]"
  by (induction b) auto

lemma str_split_two:
  "sep \<notin> set a \<Longrightarrow> sep \<notin> set b \<Longrightarrow> str_split sep (a @ sep # b) = [a, b]"
  by (induction a) (auto simp add: str_split_no_sep)

lemma float_each_Some:
  "map (\<lambda>p. py_float (str_strip p)) ps = map Some vs \<Longrightarrow> float_each ps = Inr vs"
  by (induction ps arbitrary: vs) auto

lemma float_each_None:
  "None \<in> set (map (\<lambda>p. py_float (str_strip p)) ps) \<Longrightarrow> float_each ps = Inl ValueError"
  by (induction ps) (auto split: option.splits sum.splits)

lemma round_double_5_2: "round_double (5 / 2) = Fin (5 / 2)"
proof -
  have "round_double (5 / 2) = Fin (sgn (5 / 2) * of_int 5629499534213120 * 2 powi (1 - 52))"
    by (rule round_double_eval) (simp_all add: abs_less_iff)
  then show ?thesis by simp
qed

section \<open>The sign of a cleaned area\<close>

text \<open>
  No operation of \<^verbatim>\<open>clean_sqft\<close> on a text produces a negative number: a part that follows a
  split at the hyphens has no minus sign left, rounding keeps the sign, and a sum or a
  quotient of numbers without sign bit has none.
\<close>

lemma round_double_sign: "0 < q \<Longrightarrow> \<not> sign_bit (round_double q)"
proof -
  assume q: "0 < q"
  have "0 \<le> round_half_even (\<bar>q\<bar> / 2 powi (max (ilog2 \<bar>q\<bar>) (- 1022) - 52))"
    by (rule round_half_even_nonneg) simp
  then have "0 \<le> rat_of_int (round_half_even (\<bar>q\<bar> / 2 powi (max (ilog2 \<bar>q\<bar>) (- 1022) - 52)))
                  * 2 powi (max (ilog2 \<bar>q\<bar>) (- 1022) - 52)"
    by simp
  then show ?thesis
    using q by (simp add: round_double_def Let_def fzero_def finf_def not_less)
qed

lemma fadd_sign: "\<not> sign_bit x \<Longrightarrow> \<not> sign_bit y \<Longrightarrow> \<not> sign_bit (fadd x y)"
proof -
  assume s: "\<not> sign_bit x" "\<not> sign_bit y"
  from s(1) have vx: "0 \<le> fval x" by (cases x) simp_all
  from s(2) have vy: "0 \<le> fval y" by (cases y) simp_all
  show ?thesis
  proof (cases "x = NaN \<or> y = NaN \<or> is_inf x \<or> is_inf y \<or> (is_zero x \<and> is_zero y)
                \<or> fval x + fval y = 0")
    case True
    with s show ?thesis by (cases x; cases y) (auto simp add: fadd_def fzero_def)
  next
    case False
    with vx vy have "0 < fval x + fval y" by linarith
    from round_double_sign [OF this] False show ?thesis by (auto simp add: fadd_def)
  qed
qed

lemma fdiv_sign: "\<not> sign_bit x \<Longrightarrow> \<not> sign_bit y \<Longrightarrow> \<not> sign_bit (fdiv x y)"
proof -
  assume s: "\<not> sign_bit x" "\<not> sign_bit y"
  show ?thesis
  proof (cases "x = NaN \<or> y = NaN \<or> is_inf x \<or> is_inf y \<or> is_zero x \<or> is_zero y")
    case True
    with s show ?thesis by (cases x; cases y) (auto simp add: fdiv_def fzero_def finf_def)
  next
    case False
    from s(1) False have px: "0 < fval x" by (cases x) simp_all
    from s(2) False have py: "0 < fval y" by (cases y) simp_all
    from px py have "0 < fval x / fval y" by simp
    from round_double_sign [OF this] False show ?thesis by (simp add: fdiv_def)
  qed
qed

lemma foldl_fadd_sign:
  "\<not> sign_bit x \<Longrightarrow> \<forall>v \<in> set vs. \<not> sign_bit v \<Longrightarrow> \<not> sign_bit (foldl fadd x vs)"
  by (induction vs arbitrary: x) (simp_all add: fadd_sign)

lemma np_mean_sign:
  assumes "\<forall>v \<in> set vs. \<not> sign_bit v"
  shows "\<not> sign_bit (np_mean vs)"
proof (cases vs)
  case Nil
  then show ?thesis by (simp add: np_mean_def fdiv_def)
next
  case (Cons a list)
  with assms have "\<not> sign_bit (np_sum vs)" by (simp add: foldl_fadd_sign)
  moreover have "\<not> sign_bit (Fin (of_nat (length vs)))" by simp
  ultimately show ?thesis unfolding np_mean_def by (rule fdiv_sign)
qed

lemma set_strip_with: "set (strip_with sp s) \<subseteq> set s"
proof -
  have "set (strip_with sp s) \<subseteq> set (dropWhile sp s)"
    unfolding strip_with_def using set_dropWhileD [of _ sp "rev (dropWhile sp s)"] by auto
  also have "\<dots> \<subseteq> set s" using set_dropWhileD [of _ sp s] by auto
  finally show ?thesis .
qed

lemma take_sign_unsigned: "CHR ''-'' \<notin> set u \<Longrightarrow> fst (take_sign u) = False"
  by (cases u) (auto simp add: take_sign_def)

lemma parse_floatnumber_nonneg: "parse_floatnumber u = Some q \<Longrightarrow> 0 \<le> q"
  unfolding parse_floatnumber_def Let_def
  by (simp split: prod.splits if_splits option.splits) auto

lemma py_float_cases:
  assumes "py_float t = Some v" "take_sign (strip_with num_isspace t) = (neg, u)"
  shows "v = finf neg \<or> v = NaN
         \<or> (\<exists>q. parse_floatnumber u = Some q
                \<and> v = (if q = 0 then fzero neg else round_double (if neg then - q else q)))"
  using assms unfolding py_float_def Let_def
  by (simp split: if_splits option.splits) auto

lemma py_float_sign:
  assumes "CHR ''-'' \<notin> set t" "py_float t = Some v"
  shows "\<not> sign_bit v"
proof -
  obtain neg u where tu: "take_sign (strip_with num_isspace t) = (neg, u)"
    by (cases "take_sign (strip_with num_isspace t)")
  have "CHR ''-'' \<notin> set (strip_with num_isspace t)"
    using assms(1) set_strip_with [of num_isspace t] by auto
  from take_sign_unsigned [OF this] tu have neg: "neg = False" by simp
  from py_float_cases [OF assms(2) tu] neg consider
      "v = PInf" | "v = NaN"
    | q where "parse_floatnumber u = Some q" "v = (if q = 0 then Fin 0 else round_double q)"
    by (auto simp add: finf_def fzero_def)
  then show ?thesis
  proof cases
    case 1
    then show ?thesis by simp
  next
    case 2
    then show ?thesis by simp
  next
    case 3
    from parse_floatnumber_nonneg [OF 3(1)] have "q = 0 \<or> 0 < q" by linarith
    with 3(2) round_double_sign [of q] show ?thesis by auto
  qed
qed

lemma str_split_parts: "p \<in> set (str_split c s) \<Longrightarrow> c \<notin> set p"
proof (induction s arbitrary: p)
  case Nil
  then show ?case by simp
next
  case (Cons a s)
  obtain ps where ps: "str_split c s = takeWhile (\<lambda>x. x \<noteq> c) s # ps"
    using str_split_hd [of c s] by blast
  have tw: "c \<notin> set (takeWhile (\<lambda>x. x \<noteq> c) s)"
    using set_takeWhileD [of c "\<lambda>x. x \<noteq> c" s] by blast
  show ?case
  proof (cases "a = c")
    case True
    with Cons.prems have "p = [] \<or> p \<in> set (str_split c s)" by simp
    with Cons.IH show ?thesis by auto
  next
    case False
    with Cons.prems ps have "p = a # takeWhile (\<lambda>x. x \<noteq> c) s \<or> p \<in> set ps" by simp
    then show ?thesis
    proof
      assume "p = a # takeWhile (\<lambda>x. x \<noteq> c) s"
      with False tw show ?thesis by simp
    next
      assume "p \<in> set ps"
      with ps have "p \<in> set (str_split c s)" by simp
      with Cons.IH show ?thesis by blast
    qed
  qed
qed

lemma float_each_sign:
  "float_each ps = Inr vs \<Longrightarrow> \<forall>p \<in> set ps. CHR ''-'' \<notin> set p \<Longrightarrow> \<forall>v \<in> set vs. \<not> sign_bit v"
proof (induction ps arbitrary: vs)
  case Nil
  then show ?case by simp
next
  case (Cons p ps)
  from Cons.prems(1) obtain v vs' where
    v: "py_float (str_strip p) = Some v" and vs': "float_each ps = Inr vs'" and e: "vs = v # vs'"
    by (auto split: option.splits sum.splits)
  have "CHR ''-'' \<notin> set (str_strip p)"
    using Cons.prems(2) set_strip_with [of str_isspace p] by (auto simp add: str_strip_def)
  from py_float_sign [OF this v] Cons.IH [OF vs'] Cons.prems(2) e show ?case by simp
qed

lemma clean_sqft_text_sign: "\<not> sign_bit (clean_sqft (Str s))"
proof (cases "CHR ''-'' \<in> set s")
  case True
  show ?thesis
  proof (cases "float_each (str_split CHR ''-'' s)")
    case (Inl e)
    with True show ?thesis by (simp add: clean_sqft_def clean_sqft_try_def)
  next
    case (Inr vs)
    from float_each_sign [OF Inr] str_split_parts [of _ "CHR ''-''" s]
    have "\<forall>v \<in> set vs. \<not> sign_bit v" by blast
    from np_mean_sign [OF this] True Inr show ?thesis
      by (simp add: clean_sqft_def clean_sqft_try_def)
  qed
next
  case False
  then have "CHR ''-'' \<notin> set (takeWhile (\<lambda>c. c \<noteq> CHR '' '') s)"
    using set_takeWhileD [of "CHR ''-''" "\<lambda>c. c \<noteq> CHR '' ''" s] by blast
  with False py_float_sign [of "takeWhile (\<lambda>c. c \<noteq> CHR '' '') s"] show ?thesis
    by (auto simp add: clean_sqft_def clean_sqft_try_def first_token split: option.splits)
qed

section \<open>The error of one rounding\<close>





section \<open>The end-to-end scenario\<close>

text \<open>
  Claim C8. On the two-row table of the specification the loader returns one row: the
  row of size \<open>Studio\<close> is dropped (its BHK is missing), and the row kept has BHK 2,
  total_sqft 1100.0 and price_per_sqft the binary64 nearest to \<open>50 * 100000 / 1100\<close>, which
  is within a hundredth of 4545.45.
\<close>

theorem end_to_end_scenario:
  "load_data
     [row ''2 BHK'' ''1000 - 1200'' (Fin 50) ''X'' ''Super built-up'',
      row ''Studio'' ''500'' (Fin 20) ''Y'' ''Plot'']
   = Inr [\<lparr>area_type = Str ''Super built-up'', size_col = Str ''2 BHK'',
           total_sqft = Num (Fin 1100), price = Num (Fin 50), location = Str ''X'',
           BHK = Some 2, price_per_sqft = Fin (4997780126254545 / 1099511627776)\<rparr>]
   \<and> round_double (50 * 100000 / 1100) = Fin (4997780126254545 / 1099511627776)
   \<and> \<bar>4997780126254545 / 1099511627776 - 454545 / 100\<bar> < (1 / 100 :: rat)"
  using quotient_50000_11 by (simp add: load_eval str_eval float_eval)


section \<open>Exceptions of the field parsers\<close>

text \<open>
  Claim C4. A malformed \<^verbatim>\<open>total_sqft\<close> degrades to the missing marker: \<^verbatim>\<open>clean_sqft\<close>
  catches every exception. A malformed \<^verbatim>\<open>size\<close> does not: for a size that contains
  \<open>BHK\<close> and whose text before the first space is not an integer numeral, such as \<open>2BHK\<close>,
  the \<^verbatim>\<open>int\<close> of line 31 raises \<^verbatim>\<open>ValueError\<close>, nothing catches it, and \<^verbatim>\<open>load_data\<close>
  ends with that exception instead of dropping the row.
\<close>

theorem malformed_size_raises:
  "clean_sqft (Str ''abc'') = NaN
   \<and> derive_bhk (Str ''2BHK'') = Inl ValueError
   \<and> load_data [row ''2BHK'' ''1000'' (Fin 50) ''X'' ''Plot''] = Inl ValueError
   \<and> load_data
       [row ''2 BHK'' ''1000'' (Fin 50) ''X'' ''Plot'', row ''Two BHK'' ''abc'' (Fin 20) ''Y'' ''Plot'']
     = Inl ValueError"
  by (simp add: load_eval str_eval float_eval)

section \<open>The filters of the loader\<close>

text \<open>
  Claim C1. Whenever the loader returns a table, every row of it comes from a raw row
  whose size is present, whose derived BHK is present and below 10, whose cleaned
  total_sqft is present and whose price and location are present; the row carries these
  values. So no row with a missing critical field and no row with BHK of 10 or more
  appears in the cleaned table.
\<close>

theorem cleaned_rows_are_complete:
  assumes "load_data df = Inr out" and "r \<in> set out"
  shows "(\<exists>b. BHK r = Some b \<and> b < 10)
         \<and> \<not> isna (total_sqft r) \<and> \<not> isna (price r) \<and> \<not> isna (location r)
         \<and> (\<exists>raw \<in> set df.
               \<not> isna (size_col raw) \<and> derive_bhk (size_col raw) = Inr (BHK r)
               \<and> total_sqft r = Num (clean_sqft (total_sqft raw))
               \<and> price r = price raw \<and> location r = location raw)"
proof -
  from load_data_rowD [OF assms] obtain raw b v where
    raw: "raw \<in> set df" and
    f: "\<not> isna (size_col raw)" "derive_bhk (size_col raw) = Inr (Some b)" "b < 10"
       "clean_sqft (total_sqft raw) \<noteq> NaN" "\<not> isna (price raw)" "\<not> isna (location raw)" and
    r: "r = \<lparr>area_type = area_type raw, size_col = size_col raw,
             total_sqft = Num (clean_sqft (total_sqft raw)), price = price raw,
             location = location raw, BHK = Some b, price_per_sqft = v\<rparr>"
    by blast
  have "\<exists>raw \<in> set df.
          \<not> isna (size_col raw) \<and> derive_bhk (size_col raw) = Inr (BHK r)
          \<and> total_sqft r = Num (clean_sqft (total_sqft raw))
          \<and> price r = price raw \<and> location r = location raw"
    using raw f r by (intro bexI [of _ raw]) simp_all
  moreover have "\<exists>b. BHK r = Some b \<and> b < 10" using f r by simp
  moreover have "\<not> isna (total_sqft r)" "\<not> isna (price r)" "\<not> isna (location r)"
    using f r by (simp_all add: isna_def)
  ultimately show ?thesis by blast
qed

lemma table_bhk_12:
  "load_data
     [row ''12 BHK'' ''900'' (Fin 40) ''Z'' ''Plot'',
      row ''2 BHK'' ''1000'' (Fin 50) ''X'' ''Plot'',
      \<lparr>area_type = Str ''Plot'', size_col = Str ''3 BHK'', total_sqft = Str ''1500'',
       price = Num NaN, location = Str ''Y''\<rparr>]
   = Inr [\<lparr>area_type = Str ''Plot'', size_col = Str ''2 BHK'', total_sqft = Num (Fin 1000),
           price = Num (Fin 50), location = Str ''X'', BHK = Some 2,
           price_per_sqft = Fin 5000\<rparr>]"
  by (simp add: load_eval str_eval float_eval)

theorem cleaned_rows_are_complete_witness:
  "(\<exists>b. BHK \<lparr>area_type = Str ''Plot'', size_col = Str ''2 BHK'',
               total_sqft = Num (Fin 1000), price = Num (Fin 50), location = Str ''X'',
               BHK = Some 2, price_per_sqft = Fin 5000\<rparr> = Some b \<and> b < 10)
   \<and> load_data
       [row ''12 BHK'' ''900'' (Fin 40) ''Z'' ''Plot'',
        row ''2 BHK'' ''1000'' (Fin 50) ''X'' ''Plot'',
        \<lparr>area_type = Str ''Plot'', size_col = Str ''3 BHK'', total_sqft = Str ''1500'',
         price = Num NaN, location = Str ''Y''\<rparr>]
     = Inr [\<lparr>area_type = Str ''Plot'', size_col = Str ''2 BHK'', total_sqft = Num (Fin 1000),
             price = Num (Fin 50), location = Str ''X'', BHK = Some 2,
             price_per_sqft = Fin 5000\<rparr>]"
  using cleaned_rows_are_complete [OF table_bhk_12, of
      "\<lparr>area_type = Str ''Plot'', size_col = Str ''2 BHK'', total_sqft = Num (Fin 1000),
        price = Num (Fin 50), location = Str ''X'', BHK = Some 2, price_per_sqft = Fin 5000\<rparr>"]
    table_bhk_12
  by simp


section \<open>The derivation of BHK\<close>

text \<open>
  Claim C3, as the code has it. For a size that is text and contains \<open>BHK\<close> or \<open>Bedroom\<close>
  (compared by case), BHK is the integer that the text before the first space denotes,
  whenever that text is an integer numeral: any integer, zero and the negative ones
  included. For a size that is not text, and for a text that contains neither word, BHK is
  missing.
\<close>

theorem bhk_is_leading_integer:
  "derive_bhk (Num v) = Inr None
   \<and> (\<not> str_contains s ''BHK'' \<and> \<not> str_contains s ''Bedroom'' \<longrightarrow> derive_bhk (Str s) = Inr None)
   \<and> ((str_contains s ''BHK'' \<or> str_contains s ''Bedroom'')
        \<and> py_int (takeWhile (\<lambda>c. c \<noteq> CHR '' '') s) = Some n
      \<longrightarrow> derive_bhk (Str s) = Inr (Some n))"
  by (simp add: derive_bhk_def first_token)

theorem bhk_is_leading_integer_witness:
  "derive_bhk (Str ''2 BHK'') = Inr (Some 2)
   \<and> derive_bhk (Str ''3 Bedroom Flat'') = Inr (Some 3)
   \<and> derive_bhk (Str ''Studio'') = Inr None
   \<and> derive_bhk (Str ''3 bedroom'') = Inr None"
proof -
  have a: "str_contains ''2 BHK'' ''BHK''" "py_int (takeWhile (\<lambda>c. c \<noteq> CHR '' '') ''2 BHK'') = Some 2"
    by (simp_all add: str_eval py_int_def int_max_str_digits_def)
  have b: "str_contains ''3 Bedroom Flat'' ''Bedroom''"
    "py_int (takeWhile (\<lambda>c. c \<noteq> CHR '' '') ''3 Bedroom Flat'') = Some 3"
    by (simp_all add: str_eval py_int_def int_max_str_digits_def)
  have c: "\<not> str_contains ''Studio'' ''BHK''" "\<not> str_contains ''Studio'' ''Bedroom''"
    by (simp_all add: str_eval)
  have d: "\<not> str_contains ''3 bedroom'' ''BHK''" "\<not> str_contains ''3 bedroom'' ''Bedroom''"
    by (simp_all add: str_eval)
  from bhk_is_leading_integer [of undefined "''2 BHK''" 2]
       bhk_is_leading_integer [of undefined "''3 Bedroom Flat''" 3]
       bhk_is_leading_integer [of undefined "''Studio''" 0]
       bhk_is_leading_integer [of undefined "''3 bedroom''" 0] a b c d
  show ?thesis by blast
qed

text \<open>
  The claim as the specification states it fails: the BHK of \<open>0 BHK\<close> is 0 and that of
  \<open>-2 BHK\<close> is -2, neither is positive, and both rows stay in the cleaned table.
\<close>

theorem bhk_positive_counterexample:
  "derive_bhk (Str ''0 BHK'') = Inr (Some 0)
   \<and> load_data
       [row ''0 BHK'' ''1000'' (Fin 50) ''X'' ''Plot'', row ''-2 BHK'' ''1000'' (Fin 50) ''Y'' ''Plot'']
     = Inr [\<lparr>area_type = Str ''Plot'', size_col = Str ''0 BHK'', total_sqft = Num (Fin 1000),
             price = Num (Fin 50), location = Str ''X'', BHK = Some 0,
             price_per_sqft = Fin 5000\<rparr>,
            \<lparr>area_type = Str ''Plot'', size_col = Str ''-2 BHK'', total_sqft = Num (Fin 1000),
             price = Num (Fin 50), location = Str ''Y'', BHK = Some (- 2),
             price_per_sqft = Fin 5000\<rparr>]"
  by (simp add: load_eval str_eval float_eval)


section \<open>The cleaning of total_sqft without a hyphen\<close>

text \<open>
  Claim C5, as the code has it. A numeric cell is returned as it is. For a text without a
  hyphen the cleaned value is \<^verbatim>\<open>float\<close> of the text before the first space character
  (U+0020), and missing when \<^verbatim>\<open>float\<close> refuses that text. No other white space character
  ends the token.
\<close>

theorem sqft_is_token_before_space:
  "clean_sqft (Num v) = v
   \<and> (CHR ''-'' \<notin> set s \<longrightarrow>
        clean_sqft (Str s)
        = (case py_float (takeWhile (\<lambda>c. c \<noteq> CHR '' '') s) of None \<Rightarrow> NaN | Some x \<Rightarrow> x))"
  by (simp add: clean_sqft_def clean_sqft_try_def first_token split: option.split)

theorem sqft_is_token_before_space_witness:
  "clean_sqft (Str ''1000 Sq. Meter'') = Fin 1000 \<and> clean_sqft (Str ''abc'') = NaN"
proof -
  have a: "CHR ''-'' \<notin> set ''1000 Sq. Meter''" "CHR ''-'' \<notin> set ''abc''" by simp_all
  have b: "py_float (takeWhile (\<lambda>c. c \<noteq> CHR '' '') ''1000 Sq. Meter'') = Some (Fin 1000)"
    "py_float (takeWhile (\<lambda>c. c \<noteq> CHR '' '') ''abc'') = None"
    by (simp_all add: str_eval float_eval)
  from sqft_is_token_before_space [of undefined "''1000 Sq. Meter''"]
       sqft_is_token_before_space [of undefined "''abc''"] a b
  show ?thesis by simp
qed

text \<open>
  The claim as the specification states it fails for a white space character other than
  the space: in \<open>1000<TAB>Sq. Meter\<close> the text before the first white space is \<open>1000\<close>,
  which \<^verbatim>\<open>float\<close> accepts, but the code cuts at the first space, gets \<open>1000<TAB>Sq.\<close>, and the
  field is missing.
\<close>

theorem sqft_tab_counterexample:
  "py_float ''1000'' = Some (Fin 1000)
   \<and> clean_sqft (Str (''1000'' @ [CHR 0x09] @ ''Sq. Meter'')) = NaN"
  by (simp add: clean_sqft_def clean_sqft_try_def str_eval float_eval)

section \<open>The cleaning of a total_sqft with a hyphen\<close>

text \<open>
  Claim C2, as the code has it. A text with a hyphen is cut at every hyphen; each part is
  stripped of surrounding white space and given to \<^verbatim>\<open>float\<close>; the cleaned value is the
  mean of all the parts, and the field is missing as soon as one part is refused. For a
  text \<open>a-b\<close> whose two parts hold no hyphen themselves, that is the floating point
  \<open>(x + y) / 2\<close> of the two values.
\<close>

theorem range_is_mean_of_parts:
  "(CHR ''-'' \<notin> set a \<and> CHR ''-'' \<notin> set b \<longrightarrow>
      clean_sqft (Str (a @ ''-'' @ b))
      = (case py_float (str_strip a) of
           None \<Rightarrow> NaN
         | Some x \<Rightarrow> (case py_float (str_strip b) of
                        None \<Rightarrow> NaN
                      | Some y \<Rightarrow> fdiv (fadd x y) (Fin 2))))
   \<and> (CHR ''-'' \<in> set s
        \<and> map (\<lambda>p. py_float (str_strip p)) (str_split CHR ''-'' s) = map Some vs
      \<longrightarrow> clean_sqft (Str s) = np_mean vs)
   \<and> (CHR ''-'' \<in> set s
        \<and> None \<in> set (map (\<lambda>p. py_float (str_strip p)) (str_split CHR ''-'' s))
      \<longrightarrow> clean_sqft (Str s) = NaN)"
proof (intro conjI impI)
  assume h: "CHR ''-'' \<notin> set a \<and> CHR ''-'' \<notin> set b"
  then have "str_split CHR ''-'' (a @ ''-'' @ b) = [a, b]"
    using str_split_two [of "CHR ''-''" a b] by simp
  then show "clean_sqft (Str (a @ ''-'' @ b))
      = (case py_float (str_strip a) of
           None \<Rightarrow> NaN
         | Some x \<Rightarrow> (case py_float (str_strip b) of
                        None \<Rightarrow> NaN
                      | Some y \<Rightarrow> fdiv (fadd x y) (Fin 2)))"
    by (simp add: clean_sqft_def clean_sqft_try_def np_mean_def split: option.split)
next
  assume "CHR ''-'' \<in> set s
        \<and> map (\<lambda>p. py_float (str_strip p)) (str_split CHR ''-'' s) = map Some vs"
  then show "clean_sqft (Str s) = np_mean vs"
    using float_each_Some [of "str_split CHR ''-'' s" vs]
    by (simp add: clean_sqft_def clean_sqft_try_def)
next
  assume "CHR ''-'' \<in> set s
        \<and> None \<in> set (map (\<lambda>p. py_float (str_strip p)) (str_split CHR ''-'' s))"
  then show "clean_sqft (Str s) = NaN"
    using float_each_None [of "str_split CHR ''-'' s"]
    by (simp add: clean_sqft_def clean_sqft_try_def)
qed

theorem range_is_mean_of_parts_witness:
  "clean_sqft (Str ''1000 - 1200'') = Fin 1100
   \<and> clean_sqft (Str ''1 - 2 - 6'') = Fin 3
   \<and> clean_sqft (Str ''1000 - abc'') = NaN"
proof -
  have a: "CHR ''-'' \<notin> set ''1000 '' \<and> CHR ''-'' \<notin> set '' 1200''" by simp
  have a': "py_float (str_strip ''1000 '') = Some (Fin 1000)"
    "py_float (str_strip '' 1200'') = Some (Fin 1200)"
    "fdiv (fadd (Fin 1000) (Fin 1200)) (Fin 2) = Fin 1100"
    by (simp_all add: str_eval float_eval)
  have b: "CHR ''-'' \<in> set ''1 - 2 - 6''
      \<and> map (\<lambda>p. py_float (str_strip p)) (str_split CHR ''-'' ''1 - 2 - 6'')
        = map Some [Fin 1, Fin 2, Fin 6]"
    "np_mean [Fin 1, Fin 2, Fin 6] = Fin 3"
    by (simp_all add: str_eval float_eval)
  have c: "CHR ''-'' \<in> set ''1000 - abc''
      \<and> None \<in> set (map (\<lambda>p. py_float (str_strip p)) (str_split CHR ''-'' ''1000 - abc''))"
    by (simp add: str_eval float_eval)
  from range_is_mean_of_parts [of "''1000 ''" "'' 1200''" "''1 - 2 - 6''" "[Fin 1, Fin 2, Fin 6]"]
       range_is_mean_of_parts [of "''1000 ''" "'' 1200''" "''1000 - abc''" "[]"] a a' b c
  show ?thesis by simp
qed

text \<open>
  The claim as the specification states it fails when an endpoint holds a hyphen of its
  own: \<open>-5\<close> and \<open>10\<close> are strings that \<^verbatim>\<open>float\<close> accepts and \<open>(-5 + 10) / 2\<close> is 2.5, but
  \<open>-5 - 10\<close> is cut into three parts, the first is empty, and the field is missing.
\<close>

theorem range_of_signed_counterexample:
  "py_float ''-5'' = Some (Fin (- 5)) \<and> py_float ''10'' = Some (Fin 10)
   \<and> fdiv (fadd (Fin (- 5)) (Fin 10)) (Fin 2) = Fin (5 / 2)
   \<and> clean_sqft (Str ''-5 - 10'') = NaN"
  using round_double_5_2
  by (simp add: clean_sqft_def clean_sqft_try_def str_eval float_eval)

section \<open>The range of a cleaned area\<close>

text \<open>
  Claim C6, as the code has it. Whenever the loader returns a table, the total_sqft of
  every row is a number and not NaN. When the raw value was a text, the number is not
  negative: it is a rational that is zero or more, or plus infinity (the text \<open>inf\<close> is a
  float for Python, and \<^verbatim>\<open>dropna\<close> keeps an infinity). When the raw value was a number, it is
  kept as it was, so a negative or an infinite number of a numeric column stays in the
  table.
\<close>

theorem cleaned_area_is_not_nan:
  assumes "load_data df = Inr out" and "r \<in> set out"
  shows "\<exists>raw \<in> set df. \<exists>v.
           total_sqft r = Num v \<and> v = clean_sqft (total_sqft raw) \<and> v \<noteq> NaN
           \<and> ((\<exists>s. total_sqft raw = Str s) \<longrightarrow> v = PInf \<or> (\<exists>q. v = Fin q \<and> 0 \<le> q))
           \<and> (\<forall>w. total_sqft raw = Num w \<longrightarrow> v = w)"
proof -
  from load_data_rowD [OF assms] obtain raw b v where
    raw: "raw \<in> set df" and
    n: "clean_sqft (total_sqft raw) \<noteq> NaN" and
    r: "r = \<lparr>area_type = area_type raw, size_col = size_col raw,
             total_sqft = Num (clean_sqft (total_sqft raw)), price = price raw,
             location = location raw, BHK = Some b, price_per_sqft = v\<rparr>"
    by blast
  let ?v = "clean_sqft (total_sqft raw)"
  have t: "total_sqft r = Num ?v" using r by simp
  have s: "(\<exists>s. total_sqft raw = Str s) \<longrightarrow> ?v = PInf \<or> (\<exists>q. ?v = Fin q \<and> 0 \<le> q)"
  proof
    assume "\<exists>s. total_sqft raw = Str s"
    then obtain s where "total_sqft raw = Str s" ..
    with clean_sqft_text_sign [of s] have "\<not> sign_bit ?v" by simp
    with n show "?v = PInf \<or> (\<exists>q. ?v = Fin q \<and> 0 \<le> q)" by (cases ?v) simp_all
  qed
  have w: "\<forall>w. total_sqft raw = Num w \<longrightarrow> ?v = w"
    by (simp add: clean_sqft_def clean_sqft_try_def)
  from raw t n s w show ?thesis by blast
qed

lemma table_inf_area:
  "load_data [row ''2 BHK'' ''inf'' (Fin 50) ''X'' ''Plot''] =
     Inr [\<lparr>area_type = Str ''Plot'', size_col = Str ''2 BHK'', total_sqft = Num PInf,
           price = Num (Fin 50), location = Str ''X'', BHK = Some 2,
           price_per_sqft = Fin 0\<rparr>]"
  by (simp add: load_eval str_eval float_eval)

theorem cleaned_area_is_not_nan_witness:
  "(\<exists>v. Num PInf = Num v \<and> v = clean_sqft (Str ''inf'') \<and> v \<noteq> NaN
        \<and> (v = PInf \<or> (\<exists>q. v = Fin q \<and> 0 \<le> q)))
   \<and> load_data [row ''2 BHK'' ''inf'' (Fin 50) ''X'' ''Plot''] =
       Inr [\<lparr>area_type = Str ''Plot'', size_col = Str ''2 BHK'', total_sqft = Num PInf,
             price = Num (Fin 50), location = Str ''X'', BHK = Some 2,
             price_per_sqft = Fin 0\<rparr>]"
  using cleaned_area_is_not_nan [OF table_inf_area, of
      "\<lparr>area_type = Str ''Plot'', size_col = Str ''2 BHK'', total_sqft = Num PInf,
        price = Num (Fin 50), location = Str ''X'', BHK = Some 2, price_per_sqft = Fin 0\<rparr>"]
    table_inf_area
  by (simp add: row_def)

text \<open>
  Claim C6 as the specification words it fails. The text \<open>inf\<close> is cleaned to plus infinity
  and the row stays; a numeric cell \<open>-5\<close> is kept as it is and the row stays, with a negative
  price per square foot.
\<close>

theorem infinite_and_negative_area_counterexample:
  "load_data [row ''2 BHK'' ''inf'' (Fin 50) ''X'' ''Plot''] =
     Inr [\<lparr>area_type = Str ''Plot'', size_col = Str ''2 BHK'', total_sqft = Num PInf,
           price = Num (Fin 50), location = Str ''X'', BHK = Some 2,
           price_per_sqft = Fin 0\<rparr>]
   \<and> load_data [\<lparr>area_type = Str ''Plot'', size_col = Str ''2 BHK'',
                  total_sqft = Num (Fin (- 5)), price = Num (Fin 50), location = Str ''X''\<rparr>] =
     Inr [\<lparr>area_type = Str ''Plot'', size_col = Str ''2 BHK'', total_sqft = Num (Fin (- 5)),
           price = Num (Fin 50), location = Str ''X'', BHK = Some 2,
           price_per_sqft = Fin (- 1000000)\<rparr>]"
  by (simp add: load_eval str_eval float_eval)

section \<open>The price per square foot\<close>










section \<open>Properties of the dispatch\<close>

lemma startswith_single: "startswith s [c] = (case s of [] \<Rightarrow> False | d # _ \<Rightarrow> d = c)"
  by (cases s) (simp_all add: startswith_def)

text \<open>
  Claim C9, as the code has it. The dispatch does not compare the selection with the five
  identifiers of the selection box; it looks at the first character. A selection draws
  nothing, raises nothing and leaves the page state unchanged exactly when it is empty or
  its first character is none of the digits 1 to 5, whatever the drawing routines do. A
  selection that begins with one of these digits runs the drawing routine of that digit,
  also when it is none of the five identifiers; each of the five identifiers runs its own
  routine.
\<close>

theorem selection_without_leading_digit_is_noop:
  "((sel = [] \<or> hd sel \<notin> set ''12345'') \<longrightarrow>
      display_selected_plot draw sel st = Inr st \<and> first_branch sel = None)
   \<and> ((sel \<noteq> [] \<and> hd sel \<in> set ''12345'') \<longrightarrow>
      (\<exists>p. first_branch sel = Some p \<and> display_selected_plot draw sel st = draw p st))
   \<and> (display_selected_plot record_plot sel drawn = Inr drawn)
       = (sel = [] \<or> hd sel \<notin> set ''12345'')
   \<and> map (\<lambda>sel. display_selected_plot record_plot sel []) plot_options =
       [Inr [plot_1_price_distribution], Inr [plot_2_bhk_vs_price], Inr [plot_3_top_locations],
        Inr [plot_4_scatter_sqft_price], Inr [plot_5_area_type_distribution]]"
  by (cases sel)
     (simp_all add: display_selected_plot_def first_branch_def branches_def startswith_single
        record_plot_def plot_options_def)

theorem selection_without_leading_digit_is_noop_witness:
  "display_selected_plot record_plot ''6. Heatmap'' [] = Inr []
   \<and> display_selected_plot record_plot '''' [plot_2_bhk_vs_price] = Inr [plot_2_bhk_vs_price]
   \<and> display_selected_plot record_plot '' 1. Price Distribution'' [] = Inr []
   \<and> display_selected_plot record_plot ''2. Price vs. Size (BHK)'' [] \<noteq> Inr []"
  using selection_without_leading_digit_is_noop
          [of "''6. Heatmap''" record_plot "[]" "[]"]
        selection_without_leading_digit_is_noop
          [of "''''" record_plot "[plot_2_bhk_vs_price]" "[]"]
        selection_without_leading_digit_is_noop
          [of "'' 1. Price Distribution''" record_plot "[]" "[]"]
        selection_without_leading_digit_is_noop
          [of "''2. Price vs. Size (BHK)''" record_plot "[]" "[]"]
  by (simp add: record_plot_def)

text \<open>
  Claim C9 as the specification words it fails: these three selections are none of the
  five identifiers of the selection box, and the dispatch draws a chart for each of them
  (the charts 1, 1 and 5).
\<close>

theorem unlisted_selection_draws_counterexample:
  "''10. Heatmap'' \<notin> set plot_options
   \<and> display_selected_plot record_plot ''10. Heatmap'' [] = Inr [plot_1_price_distribution]
   \<and> ''1'' \<notin> set plot_options
   \<and> display_selected_plot record_plot ''1'' [] = Inr [plot_1_price_distribution]
   \<and> ''5x'' \<notin> set plot_options
   \<and> display_selected_plot record_plot ''5x'' [] = Inr [plot_5_area_type_distribution]"
  by (simp add: display_selected_plot_def startswith_def record_plot_def plot_options_def)

text \<open>
  Claim C10. The dispatch looks at the first character only: a selection beginning with
  one of the digits 1 to 5 runs the plot of that digit whatever follows the digit, any
  other selection runs none; and the chain is a first-match search of the five branches
  in the order 1, 2, 3, 4, 5.
\<close>

theorem dispatch_on_first_character:
  "display_selected_plot draw (c # rest) st =
     (if c = CHR ''1'' then draw plot_1_price_distribution st
      else if c = CHR ''2'' then draw plot_2_bhk_vs_price st
      else if c = CHR ''3'' then draw plot_3_top_locations st
      else if c = CHR ''4'' then draw plot_4_scatter_sqft_price st
      else if c = CHR ''5'' then draw plot_5_area_type_distribution st
      else Inr st)
   \<and> display_selected_plot draw [] st = Inr st
   \<and> display_selected_plot draw sel st =
       (case first_branch sel of None \<Rightarrow> Inr st | Some p \<Rightarrow> draw p st)"
  by (simp add: display_selected_plot_def first_branch_def branches_def startswith_single
           split: list.split)

theorem dispatch_on_first_character_witness:
  "display_selected_plot record_plot ''3'' [] = Inr [plot_3_top_locations]
   \<and> display_selected_plot record_plot ''3. Top 10 Locations by Count'' [] = Inr [plot_3_top_locations]
   \<and> display_selected_plot record_plot ''31 and 5'' [] = Inr [plot_3_top_locations]"
  using dispatch_on_first_character [THEN conjunct1, of record_plot "CHR ''3''" "[]" "[]"]
        dispatch_on_first_character [THEN conjunct1, of record_plot "CHR ''3''" "''. Top 10 Locations by Count''" "[]"]
        dispatch_on_first_character [THEN conjunct1, of record_plot "CHR ''3''" "''1 and 5''" "[]"]
  by (simp add: record_plot_def)

end
